theory Spec2Isabelle
  imports Main
begin

section \<open>Python values used by the frontend\<close>

text \<open>
  The frontend (\<^verbatim>\<open>ga4gh/frontend.py\<close>) is Python 2 on Flask. Strings are modelled as
  \<^typ>\<open>string\<close>, dictionaries as maps, exceptions as the left summand of a sum type.
\<close>

datatype exception =
    TypeError
  | KeyError string
  | NotAuthenticatedException "string option"
  | NotImplementedException
  | PathNotFoundException
  | VersionNotSupportedException
  | MethodNotAllowedException
  | UnsupportedMediaTypeException

text \<open>\<^verbatim>\<open>s.strip(chars)\<close>: drops every leading and every trailing character that is in \<open>chars\<close>.\<close>

definition py_strip :: "string \<Rightarrow> string \<Rightarrow> string" where
  "py_strip chars s =
     rev (dropWhile (\<lambda>c. c \<in> set chars) (rev (dropWhile (\<lambda>c. c \<in> set chars) s)))"

text \<open>\<^verbatim>\<open>s.split(sep)\<close> for a one-character separator: never returns the empty list.\<close>

fun py_split :: "char \<Rightarrow> string \<Rightarrow> string list" where
  "py_split sep [] = [[]]"
| "py_split sep (c # cs) =
     (if c = sep then [] # py_split sep cs
      else (case py_split sep cs of
              [] \<Rightarrow> [[c]]
            | w # ws \<Rightarrow> (c # w) # ws))"

text \<open>\<^verbatim>\<open>a or b\<close> on optional strings: \<open>None\<close> and the empty string are falsy.\<close>

definition py_or :: "string option \<Rightarrow> string option \<Rightarrow> string option" where
  "py_or a b = (case a of None \<Rightarrow> b | Some s \<Rightarrow> if s = [] then b else Some s)"

text \<open>
  \<^verbatim>\<open>x is []\<close>: identity comparison with a list object allocated by the literal itself.
  No existing object is that new object, so the test is false for every \<open>x\<close>.
\<close>

definition is_new_empty_list :: "'a list \<Rightarrow> bool" where
  "is_new_empty_list xs = False"

text \<open>\<^verbatim>\<open>d[k]\<close> on a dictionary raises \<^verbatim>\<open>KeyError\<close> for a missing key.\<close>

definition getitem :: "(string \<rightharpoonup> 'v) \<Rightarrow> string \<Rightarrow> exception + 'v" where
  "getitem d k = (case d k of None \<Rightarrow> Inl (KeyError k) | Some v \<Rightarrow> Inr v)"

section \<open>Version gate\<close>

text \<open>
  \<^verbatim>\<open>class Version\<close>: the tuple \<^verbatim>\<open>(major, minor, revision)\<close> of the three components, kept as
  the strings \<^verbatim>\<open>split\<close> returned (the constructor converts nothing).
\<close>

datatype Version = Version (version: "string \<times> string \<times> string")

definition currentString :: string where
  "currentString = ''current''"

text \<open>
  \<^verbatim>\<open>Version(*versions)\<close>: the constructor takes exactly three positional arguments; any other
  number raises \<^verbatim>\<open>TypeError\<close>.
\<close>

fun Version_init :: "string list \<Rightarrow> exception + Version" where
  "Version_init [major, minor, revision] = Inr (Version (major, minor, revision))"
| "Version_init _ = Inl TypeError"

definition parseString :: "string \<Rightarrow> exception + Version" where
  "parseString versionString =
     (let versions = py_split (CHR ''.'') (py_strip ''vV'' versionString)
      in Version_init versions)"

text \<open>
  \<^verbatim>\<open>Version.isCurrentVersion\<close>. The first argument is \<^verbatim>\<open>protocol.version\<close>, a constant of the
  module \<^verbatim>\<open>ga4gh.protocol\<close>. The left operand of \<^verbatim>\<open>==\<close> is evaluated first.
\<close>

definition isCurrentVersion :: "string \<Rightarrow> string \<Rightarrow> exception + bool" where
  "isCurrentVersion protocol_version versionString =
     (if versionString = currentString then Inr True
      else (case parseString versionString of
              Inl e \<Rightarrow> Inl e
            | Inr v \<Rightarrow> (case parseString protocol_version of
                          Inl e \<Rightarrow> Inl e
                        | Inr pv \<Rightarrow> Inr (version v = version pv))))"

text \<open>\<^verbatim>\<open>assertCorrectVersion\<close>: a \<^verbatim>\<open>TypeError\<close> of the parser propagates.\<close>

definition assertCorrectVersion :: "string \<Rightarrow> string \<Rightarrow> exception + unit" where
  "assertCorrectVersion protocol_version v =
     (case isCurrentVersion protocol_version v of
        Inl e \<Rightarrow> Inl e
      | Inr b \<Rightarrow> if \<not> b then Inl VersionNotSupportedException else Inr ())"

section \<open>Responses\<close>

text \<open>
  What a view function returns: a rendered template (\<^verbatim>\<open>flask.render_template\<close>), a redirect
  (\<^verbatim>\<open>flask.redirect\<close>), or a body with status and extra headers (\<^verbatim>\<open>getFlaskResponse\<close>, whose
  mimetype is always \<^verbatim>\<open>MIMETYPE\<close>).
\<close>

datatype response =
    RenderTemplate string
  | Redirect string
  | FlaskResponse string nat "(string \<times> string) list"

definition MIMETYPE :: string where
  "MIMETYPE = ''application/json''"

definition SECRET_KEY_LENGTH :: nat where
  "SECRET_KEY_LENGTH = 24"

definition getFlaskResponse :: "string \<Rightarrow> response" where
  "getFlaskResponse responseString = FlaskResponse responseString 200 []"

text \<open>\<^verbatim>\<open>index\<close>, the view of \<^verbatim>\<open>/\<close>.\<close>

definition index :: response where
  "index = RenderTemplate ''index.html''"

text \<open>\<^verbatim>\<open>indexRedirect\<close>, the view of \<^verbatim>\<open>/<version>\<close>: only \<^verbatim>\<open>TypeError\<close> is caught.\<close>

definition indexRedirect :: "string \<Rightarrow> string \<Rightarrow> exception + response" where
  "indexRedirect protocol_version v =
     (case isCurrentVersion protocol_version v of
        Inl TypeError \<Rightarrow> Inl PathNotFoundException
      | Inl e \<Rightarrow> Inl e
      | Inr isCurrent \<Rightarrow> if isCurrent then Inr index else Inl PathNotFoundException)"

section \<open>Route registry\<close>

text \<open>
  A URL rule is its path pattern, cut at the slashes, its endpoint name and its methods. A
  part of a pattern is a literal, a placeholder \<^verbatim>\<open><name>\<close> of the default converter, or a
  placeholder \<^verbatim>\<open><no(items):name>\<close> of \<^verbatim>\<open>NoConverter\<close>.
\<close>

datatype part = Static string | Arg string | NoArg "string list" string

datatype rule = Rule (rule_path: "part list") (rule_endpoint: string) (rule_methods: "string list")

text \<open>\<^verbatim>\<open>NoConverter.to_python\<close>: \<open>None\<close> stands for \<^verbatim>\<open>ValidationError\<close>.\<close>

definition to_python :: "string list \<Rightarrow> string \<Rightarrow> string option" where
  "to_python items v = (if v \<in> set items then None else Some v)"

text \<open>
  Matching one rule against the segments of a request path, as the routing library does:
  a literal matches itself, a placeholder matches one non-empty segment (both converters
  keep the base converter's pattern \<^verbatim>\<open>[^/]+\<close>), and a converter that raises
  \<^verbatim>\<open>ValidationError\<close> makes the rule not match. The result binds the placeholders.
\<close>

fun match_path :: "part list \<Rightarrow> string list \<Rightarrow> (string \<times> string) list option" where
  "match_path [] [] = Some []"
| "match_path (Static l # ps) (s # ss) = (if s = l then match_path ps ss else None)"
| "match_path (Arg n # ps) (s # ss) =
     (if s = [] then None
      else (case match_path ps ss of None \<Rightarrow> None | Some bs \<Rightarrow> Some ((n, s) # bs)))"
| "match_path (NoArg items n # ps) (s # ss) =
     (if s = [] then None
      else (case to_python items s of
              None \<Rightarrow> None
            | Some v \<Rightarrow> (case match_path ps ss of None \<Rightarrow> None | Some bs \<Rightarrow> Some ((n, v) # bs))))"
| "match_path _ _ = None"

datatype resolution =
    Match string "(string \<times> string) list"
  | MethodNotAllowed
  | NotFound

text \<open>
  The rules are tried in turn. A rule whose path matches but whose methods do not include
  the request's is remembered: if no later rule matches, the answer is 405 instead of 404.
\<close>

fun match_rules :: "rule list \<Rightarrow> string \<Rightarrow> string list \<Rightarrow> bool \<Rightarrow> resolution" where
  "match_rules [] m segs have_match = (if have_match then MethodNotAllowed else NotFound)"
| "match_rules (r # rs) m segs have_match =
     (case match_path (rule_path r) segs of
        None \<Rightarrow> match_rules rs m segs have_match
      | Some bs \<Rightarrow>
          if m \<in> set (rule_methods r) then Match (rule_endpoint r) bs
          else match_rules rs m segs True)"

text \<open>The segments of a request path: \<^verbatim>\<open>/\<close> has none.\<close>

definition path_segments :: "string \<Rightarrow> string list option" where
  "path_segments p =
     (case p of
        [] \<Rightarrow> None
      | c # rest \<Rightarrow>
          if c \<noteq> CHR ''/'' then None
          else if rest = [] then Some []
          else Some (py_split (CHR ''/'') rest))"

definition resolve :: "rule list \<Rightarrow> string \<Rightarrow> string \<Rightarrow> resolution" where
  "resolve rules m p =
     (case path_segments p of None \<Rightarrow> NotFound | Some segs \<Rightarrow> match_rules rules m segs False)"

text \<open>
  The methods of a rule. A rule registered without \<^verbatim>\<open>methods\<close> answers \<^verbatim>\<open>GET\<close>; the framework
  adds \<^verbatim>\<open>HEAD\<close> and \<^verbatim>\<open>OPTIONS\<close> to it.
\<close>

definition GET_METHODS :: "string list" where
  "GET_METHODS = [''GET'', ''HEAD'', ''OPTIONS'']"

definition SEARCH_ENDPOINT_METHODS :: "string list" where
  "SEARCH_ENDPOINT_METHODS = [''POST'', ''OPTIONS'']"

definition get_rule :: "string \<Rightarrow> part \<Rightarrow> string \<Rightarrow> rule" where
  "get_rule collection id_part endpoint =
     Rule [Arg ''version'', Static collection, id_part] endpoint GET_METHODS"

definition search_rule :: "string \<Rightarrow> string \<Rightarrow> rule" where
  "search_rule collection endpoint =
     Rule [Arg ''version'', Static collection, Static ''search''] endpoint SEARCH_ENDPOINT_METHODS"

text \<open>The rules the module registers, in the order of the source.\<close>

definition url_map :: "rule list" where
  "url_map =
   [ Rule [] ''index'' GET_METHODS,
     Rule [Arg ''version''] ''indexRedirect'' GET_METHODS,
     get_rule ''references'' (Arg ''id'') ''getReference'',
     get_rule ''referencesets'' (Arg ''id'') ''getReferenceSet'',
     Rule [Arg ''version'', Static ''references'', Arg ''id'', Static ''bases'']
       ''listReferenceBases'' GET_METHODS,
     search_rule ''callsets'' ''searchCallSets'',
     search_rule ''readgroupsets'' ''searchReadGroupSets'',
     search_rule ''reads'' ''searchReads'',
     search_rule ''referencesets'' ''searchReferenceSets'',
     search_rule ''references'' ''searchReferences'',
     search_rule ''variantsets'' ''searchVariantSets'',
     search_rule ''variants'' ''searchVariants'',
     search_rule ''datasets'' ''searchDatasets'',
     get_rule ''variantsets'' (NoArg [''search''] ''id'') ''getVariantSet'',
     get_rule ''callsets'' (NoArg [''search''] ''id'') ''getCallset'',
     get_rule ''alleles'' (NoArg [''search''] ''id'') ''getAllele'',
     get_rule ''variants'' (NoArg [''search''] ''id'') ''getVariant'',
     Rule [Arg ''version'', Static ''variantsets'', Arg ''vsid'', Static ''sequences'', Arg ''sid'']
       ''getVariantSetSequence'' GET_METHODS,
     get_rule ''feature'' (Arg ''id'') ''getFeature'',
     Rule [Arg ''version'', Static ''sequences'', Arg ''id'', Static ''bases'']
       ''getSequenceBases'' GET_METHODS,
     get_rule ''mode'' (Arg ''mode'') ''getMode'',
     get_rule ''datasets'' (NoArg [''search''] ''id'') ''getDataset'',
     get_rule ''readgroupsets'' (NoArg [''search''] ''id'') ''getReadGroupSet'',
     get_rule ''readgroups'' (Arg ''id'') ''getReadGroup'',
     search_rule ''genotypephenotype'' ''searchGenotypePephenotype'',
     search_rule ''individuals'' ''searchIndividuals'',
     search_rule ''samples'' ''searchSamples'',
     search_rule ''experiments'' ''searchExperiments'',
     search_rule ''individualgroups'' ''searchIndividualGroups'',
     search_rule ''analyses'' ''searchAnalyses'',
     search_rule ''sequences'' ''searchSequences'',
     search_rule ''joins'' ''searchJoins'',
     Rule [Arg ''version'', Static ''subgraph'', Static ''segments'']
       ''subgraphSegments'' SEARCH_ENDPOINT_METHODS,
     Rule [Arg ''version'', Static ''subgraph'', Static ''joins'']
       ''subgraphJoins'' SEARCH_ENDPOINT_METHODS,
     search_rule ''features'' ''searchFeatures'',
     Rule [Arg ''version'', Static ''variantsets'', Arg ''id'', Static ''sequences'', Static ''search'']
       ''searchVariantSetSequences'' SEARCH_ENDPOINT_METHODS,
     search_rule ''alleles'' ''searchAlleles'',
     Rule [Static ''oauth2callback''] ''oidcCallback'' GET_METHODS ]"

text \<open>The endpoints whose identifier placeholder uses the exclusion converter.\<close>

definition no_search_endpoints :: "string list" where
  "no_search_endpoints =
     [''getVariantSet'', ''getCallset'', ''getAllele'', ''getVariant'', ''getDataset'',
      ''getReadGroupSet'']"

section \<open>Server state, sessions and requests\<close>

text \<open>
  A message of the OpenID Connect library: its class, which \<^verbatim>\<open>isinstance\<close> tests, its
  string members, which \<^verbatim>\<open>msg['name']\<close> reads, and the \<^verbatim>\<open>id_token\<close> member of an access
  token response, a dictionary of its own.
\<close>

datatype message_class = AuthorizationResponse | AccessTokenResponse | ErrorResponse

record message =
  msg_class :: message_class
  msg_items :: "string \<rightharpoonup> string"
  msg_id_token :: "(string \<rightharpoonup> string) option"

text \<open>The value of an argument of a request to the provider: a string or a list of strings.\<close>

datatype arg_value = Str string | Strs "string list"

text \<open>
  The OpenID Connect client \<^verbatim>\<open>app.oidcClient\<close>. Its methods call the identity provider; what
  they return is not decided by the frontend, so each is a function the client carries.
  \<^verbatim>\<open>redirect_uris\<close> is the one-element list \<^verbatim>\<open>configure\<close> assigns; \<open>redirect_uri\<close> is its
  element.
\<close>

record oidc_client =
  client_id :: string
  client_secret :: string
  redirect_uri :: string
  do_authorization_request :: "(string \<times> arg_value) list \<Rightarrow> string \<Rightarrow> string"
  parse_response :: "(string \<rightharpoonup> string) \<Rightarrow> message"
  do_access_token_request :: "string \<Rightarrow> string \<Rightarrow> (string \<times> arg_value) list \<Rightarrow> message"
  do_user_info_request :: "string \<Rightarrow> (string \<rightharpoonup> string)"

text \<open>The record \<^verbatim>\<open>oidcCallback\<close> stores in the token map.\<close>

record token_entry =
  tok_code :: string
  tok_state :: string
  tok_accessTokenResponse :: message
  tok_userId :: string
  tok_userInfo :: "string \<rightharpoonup> string"

text \<open>
  The attributes of \<^verbatim>\<open>app\<close> the request handlers use. \<open>backend\<close> is \<^verbatim>\<open>app.backend\<close>: the
  name of a method and its argument give the response string, or an exception.
  \<open>protocol_version\<close> is \<^verbatim>\<open>protocol.version\<close>.
\<close>

record app =
  oidcClient :: "oidc_client option"
  tokenMap :: "string \<rightharpoonup> token_entry"
  permissions :: "string \<rightharpoonup> string list"
  myPort :: string
  protocol_version :: string
  backend :: "string \<Rightarrow> string \<Rightarrow> exception + string"

text \<open>\<^verbatim>\<open>flask.session\<close>, the caller's signed cookie: the four keys the module uses.\<close>

record session =
  sess_key :: "string option"
  sess_state :: "string option"
  sess_nonce :: "string option"
  sess_userId :: "string option"

text \<open>
  \<^verbatim>\<open>flask.request\<close>: the endpoint routing found (\<open>None\<close> if no rule matched), the method,
  the mimetype, the query parameters in order, the result of \<^verbatim>\<open>get_json()\<close> (a dictionary
  whose list-valued members are kept) and the raw body \<^verbatim>\<open>get_data()\<close>.
\<close>

record request =
  req_endpoint :: "string option"
  req_method :: string
  req_mimetype :: string
  req_args :: "(string \<times> string) list"
  req_json :: "(string \<rightharpoonup> string list) option"
  req_data :: string

text \<open>\<^verbatim>\<open>request.args.get(k)\<close> is the first value of \<open>k\<close>; \<^verbatim>\<open>k in request.args\<close>.\<close>

definition args_get :: "(string \<times> string) list \<Rightarrow> string \<Rightarrow> string option" where
  "args_get args k = map_of args k"

definition args_contains :: "(string \<times> string) list \<Rightarrow> string \<Rightarrow> bool" where
  "args_contains args k = (k \<in> fst ` set args)"

text \<open>\<^verbatim>\<open>dict(request.args.iteritems(multi=True))\<close>: the last value of a repeated key stays.\<close>

definition args_dict :: "(string \<times> string) list \<Rightarrow> (string \<rightharpoonup> string)" where
  "args_dict args = map_of (rev args)"

text \<open>\<^verbatim>\<open>app.tokenMap.get(key)\<close>, where \<open>key\<close> may be \<^verbatim>\<open>None\<close>; no key of the map is \<^verbatim>\<open>None\<close>.\<close>

definition tokenMap_get :: "(string \<rightharpoonup> token_entry) \<Rightarrow> string option \<Rightarrow> token_entry option" where
  "tokenMap_get tm key = (case key of None \<Rightarrow> None | Some k \<Rightarrow> tm k)"

section \<open>Auth gate\<close>

text \<open>
  \<^verbatim>\<open>startLogin\<close>. The two results of \<^verbatim>\<open>rndstr(SECRET_KEY_LENGTH)\<close> are the arguments \<open>rnd_state\<close>
  and \<open>rnd_nonce\<close>. Returns the redirect and the session as written.
\<close>

definition startLogin :: "oidc_client \<Rightarrow> session \<Rightarrow> string \<Rightarrow> string \<Rightarrow> response \<times> session" where
  "startLogin client sess rnd_state rnd_nonce =
     (let sess1 = sess\<lparr>sess_state := Some rnd_state\<rparr>;
          sess2 = sess1\<lparr>sess_nonce := Some rnd_nonce\<rparr>;
          args = [(''client_id'', Str (client_id client)),
                  (''response_type'', Str ''code''),
                  (''scope'', Strs [''openid'', ''profile'', ''email'']),
                  (''nonce'', Str rnd_nonce),
                  (''redirect_uri'', Str (redirect_uri client)),
                  (''state'', Str rnd_state)];
          url = do_authorization_request client args rnd_state
      in (Redirect url, sess2))"

text \<open>
  The key the gate looks up: \<^verbatim>\<open>flask.session.get('key') or flask.request.args.get('key')\<close>.
\<close>

definition resolveKey :: "session \<Rightarrow> request \<Rightarrow> string option" where
  "resolveKey sess req = py_or (sess_key sess) (args_get (req_args req) ''key'')"

text \<open>
  The dataset check of \<^verbatim>\<open>checkAuthentication\<close> (the lines after the token check), for the
  token-map entry of the resolved key. \<open>Inr ()\<close> is falling off the end of the function.
\<close>

definition checkDatasets :: "app \<Rightarrow> token_entry \<Rightarrow> request \<Rightarrow> exception + unit" where
  "checkDatasets a entry req =
     (let jsonBody = (case req_json req of None \<Rightarrow> Map.empty | Some body \<Rightarrow> body)
      in case jsonBody ''datasetIds'' of
           None \<Rightarrow> Inr ()
         | Some datasetIds \<Rightarrow>
             (let userId = tok_userId entry
              in case permissions a userId of
                   None \<Rightarrow> Inl (NotAuthenticatedException (Some userId))
                 | Some userDatasets \<Rightarrow>
                     (let validIds = filter (\<lambda>dataset. dataset \<in> set userDatasets) datasetIds
                      in if is_new_empty_list validIds
                         then Inl (NotAuthenticatedException None)
                         else Inr ())))"

text \<open>
  \<^verbatim>\<open>checkAuthentication\<close>, run before every request. The result is what the function does
  (raise, return a response, or return \<^verbatim>\<open>None\<close> so that the view runs), the session and the
  server state after it.
\<close>

definition checkAuthentication ::
  "app \<Rightarrow> session \<Rightarrow> request \<Rightarrow> string \<Rightarrow> string
     \<Rightarrow> (exception + response option) \<times> session \<times> app" where
  "checkAuthentication a sess req rnd_state rnd_nonce =
     (case oidcClient a of
        None \<Rightarrow> (Inr None, sess, a)
      | Some client \<Rightarrow>
          if req_endpoint req = Some ''oidcCallback'' then (Inr None, sess, a)
          else (let key = resolveKey sess req
                in case tokenMap_get (tokenMap a) key of
                     None \<Rightarrow>
                       if args_contains (req_args req) ''key''
                       then (Inl (NotAuthenticatedException None), sess, a)
                       else (case startLogin client sess rnd_state rnd_nonce of
                               (resp, sess') \<Rightarrow> (Inr (Some resp), sess', a))
                   | Some entry \<Rightarrow>
                       (case checkDatasets a entry req of
                          Inl e \<Rightarrow> (Inl e, sess, a)
                        | Inr u \<Rightarrow> (Inr None, sess, a))))"

section \<open>Request handlers\<close>

definition handleHttpPost :: "request \<Rightarrow> (string \<Rightarrow> exception + string) \<Rightarrow> exception + response" where
  "handleHttpPost req endpoint =
     (if req_mimetype req \<noteq> MIMETYPE then Inl UnsupportedMediaTypeException
      else (case endpoint (req_data req) of
              Inl e \<Rightarrow> Inl e
            | Inr responseStr \<Rightarrow> Inr (getFlaskResponse responseStr)))"

definition handleHttpGet :: "string \<Rightarrow> (string \<Rightarrow> exception + string) \<Rightarrow> exception + response" where
  "handleHttpGet ident endpoint =
     (case endpoint ident of
        Inl e \<Rightarrow> Inl e
      | Inr responseStr \<Rightarrow> Inr (getFlaskResponse responseStr))"

definition handleHttpOptions :: response where
  "handleHttpOptions =
     FlaskResponse [] 200 [(''Access-Control-Request-Methods'', ''GET,POST,OPTIONS'')]"

definition handleFlaskGetRequest ::
  "string \<Rightarrow> string \<Rightarrow> string \<Rightarrow> request \<Rightarrow> (string \<Rightarrow> exception + string)
     \<Rightarrow> exception + response" where
  "handleFlaskGetRequest pv v ident flaskRequest endpoint =
     (case assertCorrectVersion pv v of
        Inl e \<Rightarrow> Inl e
      | Inr u \<Rightarrow>
          if req_method flaskRequest = ''GET'' then handleHttpGet ident endpoint
          else Inl MethodNotAllowedException)"

definition handleFlaskPostRequest ::
  "string \<Rightarrow> string \<Rightarrow> request \<Rightarrow> (string \<Rightarrow> exception + string) \<Rightarrow> exception + response" where
  "handleFlaskPostRequest pv v flaskRequest endpoint =
     (case assertCorrectVersion pv v of
        Inl e \<Rightarrow> Inl e
      | Inr u \<Rightarrow>
          if req_method flaskRequest = ''POST'' then handleHttpPost flaskRequest endpoint
          else if req_method flaskRequest = ''OPTIONS'' then Inr handleHttpOptions
          else Inl MethodNotAllowedException)"

text \<open>\<^verbatim>\<open>searchVariantSets\<close>, one of the eight search views, which differ in the backend method.\<close>

definition searchVariantSets :: "app \<Rightarrow> string \<Rightarrow> request \<Rightarrow> exception + response" where
  "searchVariantSets a v req =
     handleFlaskPostRequest (protocol_version a) v req (backend a ''searchVariantSets'')"

text \<open>
  A request through the framework: the \<^verbatim>\<open>before_request\<close> function runs first; if it raises
  or returns a response the view is not called, otherwise the view gets the same request.
\<close>

definition full_dispatch_request ::
  "app \<Rightarrow> session \<Rightarrow> request \<Rightarrow> string \<Rightarrow> string \<Rightarrow> (request \<Rightarrow> exception + response)
     \<Rightarrow> (exception + response) \<times> session \<times> app" where
  "full_dispatch_request a sess req rnd_state rnd_nonce view =
     (case checkAuthentication a sess req rnd_state rnd_nonce of
        (Inl e, sess', a') \<Rightarrow> (Inl e, sess', a')
      | (Inr (Some resp), sess', a') \<Rightarrow> (Inr resp, sess', a')
      | (Inr None, sess', a') \<Rightarrow> (view req, sess', a'))"

section \<open>OIDC callback\<close>

text \<open>
  What \<^verbatim>\<open>flask.url_for('index', _external=True)\<close> returned, as \<^verbatim>\<open>urlparse\<close> cuts it, and
  \<^verbatim>\<open>socket.gethostname()\<close>.
\<close>

record url_env =
  index_scheme :: string
  index_netloc :: string
  index_path :: string
  hostname :: string

definition urlunparse :: "string \<Rightarrow> string \<Rightarrow> string \<Rightarrow> string" where
  "urlunparse scheme netloc path = scheme @ ''://'' @ netloc @ path"

definition indexUrl :: "app \<Rightarrow> url_env \<Rightarrow> string" where
  "indexUrl a env =
     (if CHR '':'' \<notin> set (index_netloc env)
      then urlunparse (index_scheme env) (hostname env @ '':'' @ myPort a) (index_path env)
      else urlunparse (index_scheme env) (index_netloc env) (index_path env))"

text \<open>
  \<^verbatim>\<open>oidcCallback\<close>, the view of \<^verbatim>\<open>/oauth2callback\<close>. \<open>key\<close> is the result of
  \<^verbatim>\<open>rndstr(SECRET_KEY_LENGTH)\<close>. The statements run in the order of the source: the state is
  read from the response before the class of the response is tested, and the session key
  is written before the user's email is read.
\<close>

definition oidcCallback ::
  "app \<Rightarrow> session \<Rightarrow> request \<Rightarrow> string \<Rightarrow> url_env
     \<Rightarrow> (exception + response) \<times> session \<times> app" where
  "oidcCallback a sess req key env =
     (case oidcClient a of
        None \<Rightarrow> (Inl NotImplementedException, sess, a)
      | Some client \<Rightarrow>
          (let aresp = parse_response client (args_dict (req_args req));
               sessState = sess_state sess
           in case getitem (msg_items aresp) ''state'' of
                Inl e \<Rightarrow> (Inl e, sess, a)
              | Inr respState \<Rightarrow>
                  if msg_class aresp \<noteq> AuthorizationResponse \<or> Some respState \<noteq> sessState
                  then (Inl (NotAuthenticatedException None), sess, a)
                  else (case getitem (msg_items aresp) ''code'' of
                     Inl e \<Rightarrow> (Inl e, sess, a)
                   | Inr code \<Rightarrow>
                  (let args = [(''code'', Str code),
                               (''redirect_uri'', Str (redirect_uri client)),
                               (''client_id'', Str (client_id client)),
                               (''client_secret'', Str (client_secret client))];
                       atr = do_access_token_request client ''openid, email'' respState args
                   in if msg_class atr \<noteq> AccessTokenResponse
                      then (Inl (NotAuthenticatedException None), sess, a)
                      else (case msg_id_token atr of
                         None \<Rightarrow> (Inl (KeyError ''id_token''), sess, a)
                       | Some id_token \<Rightarrow>
                      (case getitem id_token ''nonce'' of
                         Inl e \<Rightarrow> (Inl e, sess, a)
                       | Inr nonce \<Rightarrow>
                      if sess_nonce sess \<noteq> Some nonce
                      then (Inl (NotAuthenticatedException None), sess, a)
                      else (let userInfo = do_user_info_request client respState;
                                sess1 = sess\<lparr>sess_key := Some key\<rparr>
                            in case getitem userInfo ''email'' of
                                 Inl e \<Rightarrow> (Inl e, sess1, a)
                               | Inr userId \<Rightarrow>
                                   (let sess2 = sess1\<lparr>sess_userId := Some userId\<rparr>;
                                        entry = \<lparr>tok_code = code, tok_state = respState,
                                                 tok_accessTokenResponse = atr,
                                                 tok_userId = userId, tok_userInfo = userInfo\<rparr>;
                                        a' = a\<lparr>tokenMap := (tokenMap a)(key \<mapsto> entry)\<rparr>
                                    in (Inr (Redirect (indexUrl a' env)), sess2, a')))))))))"

section \<open>A sample deployment\<close>

text \<open>
  Concrete values for the closed theorems below: a client whose provider accepts every
  code, a server that knows one user, \<^verbatim>\<open>alice\<close>, permitted the dataset \<^verbatim>\<open>ds1\<close>, and a
  backend that answers every call with the argument it was given.
\<close>

definition sample_parse :: "(string \<rightharpoonup> string) \<Rightarrow> message" where
  "sample_parse info =
     \<lparr>msg_class = (if info ''error'' = None then AuthorizationResponse else ErrorResponse),
      msg_items = info, msg_id_token = None\<rparr>"

definition sample_token :: message where
  "sample_token =
     \<lparr>msg_class = AccessTokenResponse, msg_items = Map.empty,
      msg_id_token = Some [''nonce'' \<mapsto> ''n1'']\<rparr>"

definition sample_client :: oidc_client where
  "sample_client =
     \<lparr>client_id = ''ga4gh'', client_secret = ''secret'',
      redirect_uri = ''https://server:8000/oauth2callback'',
      do_authorization_request = (\<lambda>args st. ''https://idp/authorize?state='' @ st),
      parse_response = sample_parse,
      do_access_token_request = (\<lambda>scope st args. sample_token),
      do_user_info_request = (\<lambda>st. [''email'' \<mapsto> ''alice''])\<rparr>"

definition alice_entry :: token_entry where
  "alice_entry =
     \<lparr>tok_code = ''c0'', tok_state = ''s0'', tok_accessTokenResponse = sample_token,
      tok_userId = ''alice'', tok_userInfo = [''email'' \<mapsto> ''alice'']\<rparr>"

definition echo_backend :: "string \<Rightarrow> string \<Rightarrow> exception + string" where
  "echo_backend method_name arg = Inr arg"

definition sample_app :: app where
  "sample_app =
     \<lparr>oidcClient = Some sample_client,
      tokenMap = [''tok1'' \<mapsto> alice_entry],
      permissions = [''alice'' \<mapsto> [''ds1'']],
      myPort = ''8000'', protocol_version = ''0.5.1'', backend = echo_backend\<rparr>"

definition new_session :: session where
  "new_session = \<lparr>sess_key = None, sess_state = None, sess_nonce = None, sess_userId = None\<rparr>"

definition alice_session :: session where
  "alice_session = new_session\<lparr>sess_key := Some ''tok1''\<rparr>"

definition login_session :: session where
  "login_session = new_session\<lparr>sess_state := Some ''s1'', sess_nonce := Some ''n1''\<rparr>"

definition search_request :: "(string \<times> string) list \<Rightarrow> string list \<Rightarrow> string \<Rightarrow> request" where
  "search_request args ids body =
     \<lparr>req_endpoint = Some ''searchVariantSets'', req_method = ''POST'',
      req_mimetype = MIMETYPE, req_args = args,
      req_json = Some [''datasetIds'' \<mapsto> ids], req_data = body\<rparr>"

definition callback_request :: "(string \<times> string) list \<Rightarrow> request" where
  "callback_request args =
     \<lparr>req_endpoint = Some ''oidcCallback'', req_method = ''GET'', req_mimetype = [],
      req_args = args, req_json = None, req_data = []\<rparr>"

definition sample_env :: url_env where
  "sample_env =
     \<lparr>index_scheme = ''https'', index_netloc = ''localhost'', index_path = ''/'',
      hostname = ''server''\<rparr>"

text \<open>What a handler did, and the server state it leaves.\<close>

definition outcome :: "'r \<times> session \<times> app \<Rightarrow> 'r" where
  "outcome x = fst x"


text \<open>Two request bodies, as the client sends them.\<close>

definition body_ds2 :: string where
  \<open>body_ds2 = ''{"datasetIds": ["ds2"]}''\<close>

definition body_ds1_ds2 :: string where
  \<open>body_ds1_ds2 = ''{"datasetIds": ["ds1", "ds2"]}''\<close>

section \<open>Properties of the version gate\<close>

lemma length_py_split: "length (py_split sep s) = Suc (count_list s sep)"
  by (induction s) (auto split: list.splits)

lemma Version_init_TypeError: "Version_init xs = Inl e \<Longrightarrow> e = TypeError"
  by (cases xs rule: Version_init.cases) auto

lemma Version_init_arity: "Version_init xs = Inl TypeError \<longleftrightarrow> length xs \<noteq> 3"
  by (cases xs rule: Version_init.cases) auto

lemma parseString_TypeError: "parseString s = Inl e \<Longrightarrow> e = TypeError"
  by (simp add: parseString_def Version_init_TypeError)

lemma parseString_arity:
  "parseString s = Inl TypeError \<longleftrightarrow> count_list (py_strip ''vV'' s) (CHR ''.'') \<noteq> 2"
  by (simp add: parseString_def Version_init_arity length_py_split)


lemma isCurrentVersion_TypeError: "isCurrentVersion pv s = Inl e \<Longrightarrow> e = TypeError"
  by (auto simp: isCurrentVersion_def split: if_splits sum.splits dest: parseString_TypeError)

text \<open>
  C3 (as amended). The parser checks the number of components and nothing else. A version
  string fails to parse, with \<^verbatim>\<open>TypeError\<close>, exactly when the string left after stripping
  leading and trailing \<^verbatim>\<open>v\<close>/\<^verbatim>\<open>V\<close> does not have three dot-separated components (two dots);
  for such a string other than the sentinel, \<open>isCurrentVersion\<close> raises \<^verbatim>\<open>TypeError\<close> as
  well, whatever the protocol version. Whether a component is numeric is never examined.
\<close>

theorem parseString_fails_iff_wrong_arity:
  "(parseString s = Inl TypeError \<longleftrightarrow> count_list (py_strip ''vV'' s) (CHR ''.'') \<noteq> 2) \<and>
   (count_list (py_strip ''vV'' s) (CHR ''.'') \<noteq> 2 \<and> s \<noteq> currentString
      \<longrightarrow> isCurrentVersion pv s = Inl TypeError)"
proof -
  have "isCurrentVersion pv s = Inl TypeError"
    if "count_list (py_strip ''vV'' s) (CHR ''.'') \<noteq> 2" and "s \<noteq> currentString"
  proof -
    from that(1) have "parseString s = Inl TypeError"
      by (simp add: parseString_arity)
    with that(2) show ?thesis
      by (simp add: isCurrentVersion_def)
  qed
  then show ?thesis
    using parseString_arity by blast
qed

text \<open>Witness for C3: the two-component string \<^verbatim>\<open>0.5\<close> against protocol version \<^verbatim>\<open>0.5.1\<close>.\<close>

theorem parseString_fails_iff_wrong_arity_witness:
  "count_list (py_strip ''vV'' ''0.5'') (CHR ''.'') \<noteq> 2 \<and> ''0.5'' \<noteq> currentString \<and>
   parseString ''0.5'' = Inl TypeError \<and> isCurrentVersion ''0.5.1'' ''0.5'' = Inl TypeError"
proof -
  have h: "count_list (py_strip ''vV'' ''0.5'') (CHR ''.'') \<noteq> 2 \<and> ''0.5'' \<noteq> currentString"
    by (simp add: py_strip_def currentString_def)
  with parseString_fails_iff_wrong_arity [of "''0.5''" "''0.5.1''"] show ?thesis
    by blast
qed

text \<open>
  Counterexample to C3 as stated: a string of three non-numeric components parses, and a
  string whose last component is the non-numeric \<^verbatim>\<open>1v\<close> is accepted as the current version.
\<close>

theorem parseString_non_numeric_counterexample:
  "parseString ''a.b.c'' = Inr (Version (''a'', ''b'', ''c'')) \<and>
   isCurrentVersion ''0.5.1'' ''0.5.1v'' = Inr True"
  by (simp add: parseString_def isCurrentVersion_def py_strip_def currentString_def)



text \<open>
  C8 (as amended). \<^verbatim>\<open>GET /<version>\<close> answers with the index page itself, the rendered
  template that \<^verbatim>\<open>GET /\<close> returns, if and only if the version is the current one; in every
  other case, a malformed version included, it fails with \<^verbatim>\<open>PathNotFoundException\<close>. It
  never answers with an HTTP redirect.
\<close>

theorem indexRedirect_serves_index_iff_current:
  "indexRedirect pv v =
     (if isCurrentVersion pv v = Inr True then Inr index else Inl PathNotFoundException) \<and>
   indexRedirect pv v \<noteq> Inr (Redirect url)"
proof -
  have "indexRedirect pv v =
     (if isCurrentVersion pv v = Inr True then Inr index else Inl PathNotFoundException)"
  proof (cases "isCurrentVersion pv v")
    case (Inl e)
    then have "e = TypeError"
      by (rule isCurrentVersion_TypeError)
    with Inl show ?thesis
      by (simp add: indexRedirect_def)
  next
    case (Inr isCurrent)
    then show ?thesis
      by (simp add: indexRedirect_def)
  qed
  then show ?thesis
    by (simp add: index_def)
qed

text \<open>
  Counterexample to C8 as stated: for the current version the response is the rendered
  index template, not a redirect to \<^verbatim>\<open>/\<close>.
\<close>

theorem indexRedirect_not_a_redirect_counterexample:
  "isCurrentVersion ''0.5.1'' ''0.5.1'' = Inr True \<and>
   indexRedirect ''0.5.1'' ''0.5.1'' = Inr (RenderTemplate ''index.html'') \<and>
   indexRedirect ''0.5.1'' ''0.5.1'' \<noteq> Inr (Redirect ''/'')"
  by (simp add: indexRedirect_def index_def isCurrentVersion_def parseString_def
      py_strip_def currentString_def)

section \<open>Properties of the route registry\<close>

lemma match_rules_Match:
  "match_rules rules m segs hm = Match ep bs \<Longrightarrow>
   \<exists>r\<in>set rules. rule_endpoint r = ep \<and> match_path (rule_path r) segs = Some bs"
  by (induction rules arbitrary: hm) (auto split: option.splits if_splits)

lemma match_rules_no_method:
  "\<forall>r\<in>set rules. match_path (rule_path r) segs \<noteq> None \<longrightarrow> m \<notin> set (rule_methods r) \<Longrightarrow>
   match_rules rules m segs hm =
     (if hm \<or> (\<exists>r\<in>set rules. match_path (rule_path r) segs \<noteq> None)
      then MethodNotAllowed else NotFound)"
  by (induction rules arbitrary: hm) (auto split: option.splits)

lemma match_rules_unique:
  "r0 \<in> set rules \<Longrightarrow> match_path (rule_path r0) segs = Some bs \<Longrightarrow>
   m \<in> set (rule_methods r0) \<Longrightarrow>
   \<forall>r\<in>set rules. match_path (rule_path r) segs \<noteq> None \<and> m \<in> set (rule_methods r) \<longrightarrow> r = r0 \<Longrightarrow>
   match_rules rules m segs hm = Match (rule_endpoint r0) bs"
proof (induction rules arbitrary: hm)
  case Nil
  from Nil(1) show ?case by simp
next
  case (Cons r rs)
  show ?case
  proof (cases "r = r0")
    case True
    with Cons.prems(2,3) show ?thesis by simp
  next
    case False
    with Cons.prems(1) have in_rs: "r0 \<in> set rs" by simp
    from False Cons.prems(4)
    have skip: "match_path (rule_path r) segs = None \<or> m \<notin> set (rule_methods r)"
      by auto
    from Cons.prems(4)
    have rest: "\<forall>r\<in>set rs. match_path (rule_path r) segs \<noteq> None \<and> m \<in> set (rule_methods r)
                  \<longrightarrow> r = r0"
      by simp
    have ih: "match_rules rs m segs h = Match (rule_endpoint r0) bs" for h
      by (rule Cons.IH [OF in_rs Cons.prems(2) Cons.prems(3) rest])
    from skip show ?thesis
      by (cases "match_path (rule_path r) segs") (simp_all add: ih)
  qed
qed

text \<open>A rule of the shape \<^verbatim>\<open>/<version>/c/<no(items):id>\<close> binds \<open>id\<close> outside \<open>items\<close>.\<close>

lemma match_path_NoArg:
  "match_path [Arg ''version'', Static c, NoArg items ''id''] segs = Some bs \<Longrightarrow>
   \<exists>ver v. segs = [ver, c, v] \<and> bs = [(''version'', ver), (''id'', v)] \<and> v \<notin> set items"
  apply (cases segs; simp split: if_splits option.splits)
  subgoal for s1 ss1
    apply (cases ss1; simp split: if_splits option.splits)
    subgoal for s2 ss2
      apply (cases ss2; simp split: if_splits option.splits)
      subgoal for s3 ss3
        by (cases ss3; auto simp: to_python_def split: if_splits option.splits)
      done
    done
  done

lemmas url_map_defs = url_map_def get_rule_def search_rule_def
  GET_METHODS_def SEARCH_ENDPOINT_METHODS_def to_python_def

lemma no_search_rules:
  "r \<in> set url_map \<Longrightarrow> rule_endpoint r \<in> set no_search_endpoints \<Longrightarrow>
   \<exists>c. rule_path r = [Arg ''version'', Static c, NoArg [''search''] ''id'']"
  by (auto simp: url_map_def no_search_endpoints_def get_rule_def search_rule_def)

lemma segments_search:
  "path_segments ''/v1/variantsets/search'' = Some [''v1'', ''variantsets'', ''search'']"
  by (simp add: path_segments_def)

lemma segments_abc123:
  "path_segments ''/v1/variantsets/abc123'' = Some [''v1'', ''variantsets'', ''abc123'']"
  by (simp add: path_segments_def)

lemma search_path_no_GET:
  "\<forall>r\<in>set url_map. match_path (rule_path r) [''v1'', ''variantsets'', ''search''] \<noteq> None
      \<longrightarrow> ''GET'' \<notin> set (rule_methods r)"
  by (simp add: url_map_defs)

lemma search_path_some_rule:
  "\<exists>r\<in>set url_map. match_path (rule_path r) [''v1'', ''variantsets'', ''search''] \<noteq> None"
  by (simp add: url_map_defs)

lemma abc123_only_rule:
  "\<forall>r\<in>set url_map. match_path (rule_path r) [''v1'', ''variantsets'', ''abc123''] \<noteq> None
      \<and> ''GET'' \<in> set (rule_methods r)
      \<longrightarrow> r = get_rule ''variantsets'' (NoArg [''search''] ''id'') ''getVariantSet''"
  by (simp add: url_map_defs)

lemma resolve_GET_search:
  assumes "set rules = set url_map"
  shows "resolve rules ''GET'' ''/v1/variantsets/search'' = MethodNotAllowed"
  using assms search_path_no_GET search_path_some_rule
  by (simp add: resolve_def segments_search match_rules_no_method)

lemma resolve_GET_abc123:
  assumes "set rules = set url_map"
  shows "resolve rules ''GET'' ''/v1/variantsets/abc123'' =
           Match ''getVariantSet'' [(''version'', ''v1''), (''id'', ''abc123'')]"
proof -
  let ?r0 = "get_rule ''variantsets'' (NoArg [''search''] ''id'') ''getVariantSet''"
  let ?segs = "[''v1'', ''variantsets'', ''abc123'']"
  let ?bs = "[(''version'', ''v1''), (''id'', ''abc123'')]"
  have a: "?r0 \<in> set rules"
    using assms by (simp add: url_map_def)
  have b: "match_path (rule_path ?r0) ?segs = Some ?bs"
    by (simp add: url_map_defs)
  have c: "''GET'' \<in> set (rule_methods ?r0)"
    by (simp add: url_map_defs)
  have d: "\<forall>r\<in>set rules. match_path (rule_path r) ?segs \<noteq> None
             \<and> ''GET'' \<in> set (rule_methods r) \<longrightarrow> r = ?r0"
    using assms abc123_only_rule by simp
  have "match_rules rules ''GET'' ?segs False = Match (rule_endpoint ?r0) ?bs"
    by (rule match_rules_unique [OF a b c d])
  then show ?thesis
    by (simp add: resolve_def segments_abc123 get_rule_def)
qed

lemma resolve_no_search_id:
  assumes "set rules = set url_map" and "resolve rules m p = Match ep bs"
    and "ep \<in> set no_search_endpoints"
  shows "\<exists>v. map_of bs ''id'' = Some v \<and> v \<noteq> ''search''"
proof -
  from assms(2) obtain segs where "match_rules rules m segs False = Match ep bs"
    by (auto simp: resolve_def split: option.splits)
  then obtain r where r: "r \<in> set rules" "rule_endpoint r = ep"
      "match_path (rule_path r) segs = Some bs"
    by (blast dest: match_rules_Match)
  with assms obtain c where "rule_path r = [Arg ''version'', Static c, NoArg [''search''] ''id'']"
    using no_search_rules by blast
  with r(3) obtain ver v where "bs = [(''version'', ver), (''id'', v)]" "v \<notin> set [''search'']"
    using match_path_NoArg by metis
  then show ?thesis by simp
qed

text \<open>
  C6. Whatever the order in which the routing library tries the registered rules: an
  endpoint whose identifier uses the exclusion converter is never resolved with the
  identifier \<^verbatim>\<open>search\<close>; \<^verbatim>\<open>GET /v1/variantsets/search\<close> does not resolve to the variant-set
  get-by-id handler (only the search rule matches the path, and it does not take \<^verbatim>\<open>GET\<close>);
  \<^verbatim>\<open>GET /v1/variantsets/abc123\<close> resolves to \<^verbatim>\<open>getVariantSet\<close> with \<^verbatim>\<open>id = abc123\<close>.
\<close>

theorem exclusion_converter_never_captures_search:
  assumes "set rules = set url_map"
  shows "(\<forall>m p ep bs. resolve rules m p = Match ep bs \<and> ep \<in> set no_search_endpoints
            \<longrightarrow> (\<exists>v. map_of bs ''id'' = Some v \<and> v \<noteq> ''search'')) \<and>
         resolve rules ''GET'' ''/v1/variantsets/search'' = MethodNotAllowed \<and>
         (\<forall>bs. resolve rules ''GET'' ''/v1/variantsets/search'' \<noteq> Match ''getVariantSet'' bs) \<and>
         resolve rules ''GET'' ''/v1/variantsets/abc123'' =
           Match ''getVariantSet'' [(''version'', ''v1''), (''id'', ''abc123'')]"
proof -
  have search: "resolve rules ''GET'' ''/v1/variantsets/search'' = MethodNotAllowed"
    using assms by (rule resolve_GET_search)
  then have not_get: "\<forall>bs. resolve rules ''GET'' ''/v1/variantsets/search'' \<noteq> Match ''getVariantSet'' bs"
    by simp
  have abc: "resolve rules ''GET'' ''/v1/variantsets/abc123'' =
           Match ''getVariantSet'' [(''version'', ''v1''), (''id'', ''abc123'')]"
    using assms by (rule resolve_GET_abc123)
  have "\<exists>v. map_of bs ''id'' = Some v \<and> v \<noteq> ''search''"
    if "resolve rules m p = Match ep bs" "ep \<in> set no_search_endpoints" for m p ep bs
    using assms that by (rule resolve_no_search_id)
  then have never: "\<forall>m p ep bs. resolve rules m p = Match ep bs \<and> ep \<in> set no_search_endpoints
            \<longrightarrow> (\<exists>v. map_of bs ''id'' = Some v \<and> v \<noteq> ''search'')"
    by blast
  from never search not_get abc show ?thesis
    by (intro conjI)
qed

text \<open>Witness for C6: the rules in the order of the source.\<close>

theorem exclusion_converter_never_captures_search_witness:
  "set url_map = set url_map \<and>
   resolve url_map ''GET'' ''/v1/variantsets/search'' = MethodNotAllowed \<and>
   resolve url_map ''GET'' ''/v1/variantsets/abc123'' =
     Match ''getVariantSet'' [(''version'', ''v1''), (''id'', ''abc123'')] \<and>
   ''getVariantSet'' \<in> set no_search_endpoints \<and>
   map_of [(''version'', ''v1''), (''id'', ''abc123'')] ''id'' = Some ''abc123''"
proof -
  have h: "set url_map = set url_map"
    by simp
  have "''getVariantSet'' \<in> set no_search_endpoints"
    by (simp add: no_search_endpoints_def)
  with exclusion_converter_never_captures_search [OF h] show ?thesis
    by simp
qed

section \<open>Properties of the auth gate\<close>

lemmas sample_defs = sample_app_def sample_client_def alice_entry_def sample_token_def
  sample_parse_def echo_backend_def new_session_def alice_session_def login_session_def
  search_request_def callback_request_def sample_env_def

lemmas gate_defs = checkAuthentication_def resolveKey_def py_or_def args_get_def
  args_contains_def tokenMap_get_def checkDatasets_def is_new_empty_list_def startLogin_def

lemmas view_defs = full_dispatch_request_def searchVariantSets_def handleFlaskPostRequest_def
  handleHttpPost_def assertCorrectVersion_def isCurrentVersion_def parseString_def
  py_strip_def currentString_def

text \<open>The dataset check has two outcomes: it passes, or the user is not in the table.\<close>

lemma checkDatasets_outcomes:
  "checkDatasets a entry req = Inr () \<or>
   checkDatasets a entry req = Inl (NotAuthenticatedException (Some (tok_userId entry)))"
  by (simp add: checkDatasets_def is_new_empty_list_def Let_def split: option.splits)

lemma checkDatasets_args: "checkDatasets a entry (req\<lparr>req_args := args'\<rparr>) = checkDatasets a entry req"
  by (simp add: checkDatasets_def)

lemma startLogin_redirect:
  "startLogin client sess r1 r2 =
     (Redirect (do_authorization_request client
        [(''client_id'', Str (client_id client)), (''response_type'', Str ''code''),
         (''scope'', Strs [''openid'', ''profile'', ''email'']), (''nonce'', Str r2),
         (''redirect_uri'', Str (redirect_uri client)), (''state'', Str r1)] r1),
      sess\<lparr>sess_state := Some r1, sess_nonce := Some r2\<rparr>)"
  by (simp add: startLogin_def Let_def)

lemma search_view:
  assumes "isCurrentVersion (protocol_version a) v = Inr True"
    and "req_method req = ''POST''" and "req_mimetype req = MIMETYPE"
  shows "searchVariantSets a v req =
           (case backend a ''searchVariantSets'' (req_data req) of
              Inl e \<Rightarrow> Inl e
            | Inr s \<Rightarrow> Inr (getFlaskResponse s))"
  using assms
  by (simp add: searchVariantSets_def handleFlaskPostRequest_def handleHttpPost_def
      assertCorrectVersion_def)

text \<open>
  C1, at the failing input. \<^verbatim>\<open>alice\<close> holds a valid token and is permitted \<^verbatim>\<open>ds1\<close> only; she
  searches \<^verbatim>\<open>ds2\<close>. The intersection is empty, yet the gate returns \<^verbatim>\<open>None\<close> and the
  backend is called with her request: the test \<^verbatim>\<open>validIds is []\<close> is false for every list.
\<close>

theorem checkAuthentication_empty_intersection_passes:
  "permissions sample_app ''alice'' = Some [''ds1''] \<and>
   set [''ds2''] \<inter> set [''ds1''] = {} \<and>
   checkAuthentication sample_app alice_session (search_request [] [''ds2''] body_ds2) ''r1'' ''r2''
     = (Inr None, alice_session, sample_app) \<and>
   full_dispatch_request sample_app alice_session (search_request [] [''ds2''] body_ds2)
       ''r1'' ''r2'' (searchVariantSets sample_app ''v0.5.1'')
     = (Inr (getFlaskResponse body_ds2), alice_session, sample_app)"
  by (simp add: view_defs gate_defs sample_defs)

text \<open>
  C2 (as amended). A request with a \<^verbatim>\<open>datasetIds\<close> field whose caller has a valid token, is
  in the permission table and is permitted at least one of the requested datasets passes
  the gate unchanged: the view runs on the request as it came, and the search view hands
  the backend the original body, with every requested dataset identifier in it. The
  permitted subset the gate computes goes nowhere.
\<close>

theorem gate_passes_request_unchanged:
  assumes "oidcClient a = Some client" and "req_endpoint req \<noteq> Some ''oidcCallback''"
    and "tokenMap_get (tokenMap a) (resolveKey sess req) = Some entry"
    and "req_json req = Some body" and "body ''datasetIds'' = Some ids"
    and "permissions a (tok_userId entry) = Some allowed"
    and "set ids \<inter> set allowed \<noteq> {}"
  shows "full_dispatch_request a sess req r1 r2 view = (view req, sess, a) \<and>
         (isCurrentVersion (protocol_version a) v = Inr True \<and> req_method req = ''POST'' \<and>
          req_mimetype req = MIMETYPE \<longrightarrow>
            full_dispatch_request a sess req r1 r2 (searchVariantSets a v) =
              ((case backend a ''searchVariantSets'' (req_data req) of
                  Inl e \<Rightarrow> Inl e
                | Inr s \<Rightarrow> Inr (getFlaskResponse s)), sess, a))"
proof -
  have pass: "full_dispatch_request a sess req r1 r2 view = (view req, sess, a)" for view
    using assms(1-6)
    by (simp add: full_dispatch_request_def checkAuthentication_def checkDatasets_def
        is_new_empty_list_def)
  then show ?thesis
    by (simp add: search_view)
qed

text \<open>
  Witness for C2: \<^verbatim>\<open>alice\<close>, permitted \<^verbatim>\<open>ds1\<close>, searches \<^verbatim>\<open>ds1\<close> and \<^verbatim>\<open>ds2\<close>.
\<close>

theorem gate_passes_request_unchanged_witness:
  "oidcClient sample_app = Some sample_client \<and>
   tokenMap_get (tokenMap sample_app)
     (resolveKey alice_session (search_request [] [''ds1'', ''ds2''] body_ds1_ds2)) = Some alice_entry \<and>
   permissions sample_app (tok_userId alice_entry) = Some [''ds1''] \<and>
   set [''ds1'', ''ds2''] \<inter> set [''ds1''] \<noteq> {} \<and>
   isCurrentVersion (protocol_version sample_app) ''v0.5.1'' = Inr True \<and>
   full_dispatch_request sample_app alice_session (search_request [] [''ds1'', ''ds2''] body_ds1_ds2)
       ''r1'' ''r2'' (searchVariantSets sample_app ''v0.5.1'')
     = ((case backend sample_app ''searchVariantSets'' body_ds1_ds2 of
           Inl e \<Rightarrow> Inl e
         | Inr s \<Rightarrow> Inr (getFlaskResponse s)), alice_session, sample_app)"
proof -
  let ?req = "search_request [] [''ds1'', ''ds2''] body_ds1_ds2"
  have h1: "oidcClient sample_app = Some sample_client"
    by (simp add: sample_defs)
  have h2: "req_endpoint ?req \<noteq> Some ''oidcCallback''"
    by (simp add: sample_defs)
  have h3: "tokenMap_get (tokenMap sample_app) (resolveKey alice_session ?req) = Some alice_entry"
    by (simp add: gate_defs sample_defs)
  have h4: "req_json ?req = Some [''datasetIds'' \<mapsto> [''ds1'', ''ds2'']]"
    by (simp add: sample_defs)
  have h5: "[''datasetIds'' \<mapsto> [''ds1'', ''ds2'']] ''datasetIds'' = Some [''ds1'', ''ds2'']"
    by simp
  have h6: "permissions sample_app (tok_userId alice_entry) = Some [''ds1'']"
    by (simp add: sample_defs)
  have h7: "set [''ds1'', ''ds2''] \<inter> set [''ds1''] \<noteq> {}"
    by simp
  have v: "isCurrentVersion (protocol_version sample_app) ''v0.5.1'' = Inr True"
    by (simp add: view_defs sample_defs)
  have r: "req_method ?req = ''POST''" "req_mimetype ?req = MIMETYPE"
    by (simp_all add: sample_defs)
  have d: "req_data ?req = body_ds1_ds2"
    by (simp add: sample_defs)
  note t = gate_passes_request_unchanged [OF h1 h2 h3 h4 h5 h6 h7,
      of "''r1''" "''r2''" "searchVariantSets sample_app ''v0.5.1''" "''v0.5.1''", THEN conjunct2]
  from t v r
  have "full_dispatch_request sample_app alice_session ?req ''r1'' ''r2''
          (searchVariantSets sample_app ''v0.5.1'')
        = ((case backend sample_app ''searchVariantSets'' (req_data ?req) of
              Inl e \<Rightarrow> Inl e
            | Inr s \<Rightarrow> Inr (getFlaskResponse s)), alice_session, sample_app)"
    by blast
  then have res: "full_dispatch_request sample_app alice_session ?req ''r1'' ''r2''
          (searchVariantSets sample_app ''v0.5.1'')
        = ((case backend sample_app ''searchVariantSets'' body_ds1_ds2 of
              Inl e \<Rightarrow> Inl e
            | Inr s \<Rightarrow> Inr (getFlaskResponse s)), alice_session, sample_app)"
    by (simp only: d)
  from h1 h3 h6 h7 v res show ?thesis
    by (intro conjI)
qed

text \<open>
  Counterexample to C2 as stated: \<^verbatim>\<open>alice\<close> is permitted \<^verbatim>\<open>ds1\<close> only and searches \<^verbatim>\<open>ds1\<close> and
  \<^verbatim>\<open>ds2\<close>. The backend, which answers with the argument it was given, answers with the body
  that names both datasets: \<^verbatim>\<open>ds2\<close> was not dropped.
\<close>

theorem permitted_subset_not_passed_counterexample:
  "permissions sample_app ''alice'' = Some [''ds1''] \<and>
   req_json (search_request [] [''ds1'', ''ds2''] body_ds1_ds2)
     = Some [''datasetIds'' \<mapsto> [''ds1'', ''ds2'']] \<and>
   full_dispatch_request sample_app alice_session (search_request [] [''ds1'', ''ds2''] body_ds1_ds2)
       ''r1'' ''r2'' (searchVariantSets sample_app ''v0.5.1'')
     = (Inr (getFlaskResponse body_ds1_ds2), alice_session, sample_app)"
  by (simp add: view_defs gate_defs sample_defs)

text \<open>
  C7 (as amended). OIDC is configured, the request does not target the callback endpoint,
  and the key resolved from the session or the query has no entry in the token map. If the
  query carries a \<^verbatim>\<open>key\<close> parameter the gate raises \<^verbatim>\<open>NotAuthenticatedException\<close> and the
  session is untouched; otherwise it answers with the redirect that \<^verbatim>\<open>startLogin\<close> builds
  and stores the new state and nonce in the session.
\<close>

theorem unauthenticated_key_parameter_or_redirect:
  assumes "oidcClient a = Some client" and "req_endpoint req \<noteq> Some ''oidcCallback''"
    and "tokenMap_get (tokenMap a) (resolveKey sess req) = None"
  shows "checkAuthentication a sess req r1 r2 =
     (if args_contains (req_args req) ''key''
      then (Inl (NotAuthenticatedException None), sess, a)
      else (Inr (Some (Redirect (do_authorization_request client
              [(''client_id'', Str (client_id client)), (''response_type'', Str ''code''),
               (''scope'', Strs [''openid'', ''profile'', ''email'']), (''nonce'', Str r2),
               (''redirect_uri'', Str (redirect_uri client)), (''state'', Str r1)] r1))),
            sess\<lparr>sess_state := Some r1, sess_nonce := Some r2\<rparr>, a))"
  using assms by (simp add: checkAuthentication_def startLogin_redirect)

text \<open>
  Witness for C7: a caller with no session, once with an unknown \<^verbatim>\<open>key\<close> parameter and
  once without any.
\<close>

theorem unauthenticated_key_parameter_or_redirect_witness:
  "oidcClient sample_app = Some sample_client \<and>
   tokenMap_get (tokenMap sample_app)
     (resolveKey new_session (search_request [(''key'', ''bogus'')] [''ds1''] [])) = None \<and>
   tokenMap_get (tokenMap sample_app) (resolveKey new_session (search_request [] [''ds1''] [])) = None \<and>
   checkAuthentication sample_app new_session (search_request [(''key'', ''bogus'')] [''ds1''] [])
       ''r1'' ''r2''
     = (Inl (NotAuthenticatedException None), new_session, sample_app) \<and>
   checkAuthentication sample_app new_session (search_request [] [''ds1''] []) ''r1'' ''r2''
     = (Inr (Some (Redirect ''https://idp/authorize?state=r1'')),
        new_session\<lparr>sess_state := Some ''r1'', sess_nonce := Some ''r2''\<rparr>, sample_app)"
proof -
  let ?keyed = "search_request [(''key'', ''bogus'')] [''ds1''] []"
  let ?plain = "search_request [] [''ds1''] []"
  have h1: "oidcClient sample_app = Some sample_client"
    by (simp add: sample_defs)
  have h2: "req_endpoint ?keyed \<noteq> Some ''oidcCallback''" "req_endpoint ?plain \<noteq> Some ''oidcCallback''"
    by (simp_all add: sample_defs)
  have h3: "tokenMap_get (tokenMap sample_app) (resolveKey new_session ?keyed) = None"
    by (simp add: gate_defs sample_defs)
  have h4: "tokenMap_get (tokenMap sample_app) (resolveKey new_session ?plain) = None"
    by (simp add: gate_defs sample_defs)
  have args: "args_contains (req_args ?keyed) ''key''" "\<not> args_contains (req_args ?plain) ''key''"
    by (simp_all add: args_contains_def sample_defs)
  have url: "do_authorization_request sample_client xs ''r1'' = ''https://idp/authorize?state=r1''"
    for xs
    by (simp add: sample_defs)
  from unauthenticated_key_parameter_or_redirect [OF h1 h2(1) h3, of "''r1''" "''r2''"]
    unauthenticated_key_parameter_or_redirect [OF h1 h2(2) h4, of "''r1''" "''r2''"]
    h1 h3 h4 args url
  show ?thesis
    by simp
qed

text \<open>
  Counterexample to C7 as stated: OIDC is configured and the request carries a \<^verbatim>\<open>key\<close>
  parameter that resolves to no token, but the request targets the callback endpoint: the
  gate neither fails nor redirects, it lets the request through.
\<close>

theorem callback_request_not_gated_counterexample:
  "oidcClient sample_app = Some sample_client \<and>
   args_contains (req_args (callback_request [(''key'', ''bogus'')])) ''key'' \<and>
   tokenMap_get (tokenMap sample_app)
     (resolveKey new_session (callback_request [(''key'', ''bogus'')])) = None \<and>
   checkAuthentication sample_app new_session (callback_request [(''key'', ''bogus'')]) ''r1'' ''r2''
     = (Inr None, new_session, sample_app)"
  by (simp add: gate_defs sample_defs)

text \<open>
  C9. The session holds a key (a non-empty string, as every generated key is) that has an
  entry in the token map. Then the gate resolves that key, whatever the query parameters:
  it never raises for a missing token and never redirects to the login; what remains is
  the dataset check for the session's entry, and replacing the query parameters by any
  others changes nothing in what the gate does.
\<close>

theorem session_key_takes_precedence:
  assumes "sess_key sess = Some k" and "k \<noteq> []" and "tokenMap a k = Some entry"
  shows "resolveKey sess req = Some k \<and>
         checkAuthentication a sess req r1 r2 =
           (if oidcClient a = None \<or> req_endpoint req = Some ''oidcCallback''
            then (Inr None, sess, a)
            else (case checkDatasets a entry req of
                    Inl e \<Rightarrow> (Inl e, sess, a)
                  | Inr u \<Rightarrow> (Inr None, sess, a))) \<and>
         checkAuthentication a sess (req\<lparr>req_args := args'\<rparr>) r1 r2 =
           checkAuthentication a sess req r1 r2 \<and>
         outcome (checkAuthentication a sess req r1 r2) \<noteq> Inl (NotAuthenticatedException None) \<and>
         outcome (checkAuthentication a sess req r1 r2) \<noteq> Inr (Some resp)"
proof -
  have k: "resolveKey sess q = Some k" for q
    using assms(1,2) by (simp add: resolveKey_def py_or_def)
  have eq: "checkAuthentication a sess q r1 r2 =
           (if oidcClient a = None \<or> req_endpoint q = Some ''oidcCallback''
            then (Inr None, sess, a)
            else (case checkDatasets a entry q of
                    Inl e \<Rightarrow> (Inl e, sess, a)
                  | Inr u \<Rightarrow> (Inr None, sess, a)))" for q
    using assms(3) by (simp add: checkAuthentication_def k tokenMap_get_def split: option.splits)
  have indep: "checkAuthentication a sess (req\<lparr>req_args := args'\<rparr>) r1 r2 =
           checkAuthentication a sess req r1 r2"
    by (simp add: eq checkDatasets_args)
  have out: "outcome (checkAuthentication a sess req r1 r2) \<noteq> Inl (NotAuthenticatedException None) \<and>
         outcome (checkAuthentication a sess req r1 r2) \<noteq> Inr (Some resp)"
    using checkDatasets_outcomes [of a entry req] by (auto simp: eq outcome_def)
  from k eq indep out show ?thesis
    by simp
qed

text \<open>
  Witness for C9: \<^verbatim>\<open>alice\<close>'s session with an unknown \<^verbatim>\<open>key\<close> parameter in the query.
\<close>

theorem session_key_takes_precedence_witness:
  "sess_key alice_session = Some ''tok1'' \<and> ''tok1'' \<noteq> [] \<and>
   tokenMap sample_app ''tok1'' = Some alice_entry \<and>
   resolveKey alice_session (search_request [(''key'', ''bogus'')] [''ds1''] []) = Some ''tok1'' \<and>
   checkAuthentication sample_app alice_session (search_request [(''key'', ''bogus'')] [''ds1''] [])
       ''r1'' ''r2''
     = (Inr None, alice_session, sample_app)"
proof -
  let ?req = "search_request [(''key'', ''bogus'')] [''ds1''] []"
  have h1: "sess_key alice_session = Some ''tok1''"
    by (simp add: sample_defs)
  have h2: "''tok1'' \<noteq> []"
    by simp
  have h3: "tokenMap sample_app ''tok1'' = Some alice_entry"
    by (simp add: sample_defs)
  have c: "oidcClient sample_app \<noteq> None" "req_endpoint ?req \<noteq> Some ''oidcCallback''"
    by (simp_all add: sample_defs)
  have d: "checkDatasets sample_app alice_entry ?req = Inr ()"
    by (simp add: checkDatasets_def is_new_empty_list_def sample_defs)
  from session_key_takes_precedence [OF h1 h2 h3, of ?req "''r1''" "''r2''"] h1 h3 c d
  show ?thesis
    by simp
qed

section \<open>Properties of the OIDC callback\<close>

lemmas callback_defs = oidcCallback_def getitem_def args_dict_def indexUrl_def urlunparse_def
  Let_def






text \<open>
  C4 (as amended). Without an OIDC client the callback raises \<^verbatim>\<open>NotImplementedException\<close>.
  With one, if the parsed response carries a \<^verbatim>\<open>state\<close> member and either is not an
  authorization response or its state is not the one stored in the session, the callback
  raises \<^verbatim>\<open>NotAuthenticatedException\<close>, with the session and the server state untouched,
  whatever the code, the token exchange and the user info would have given.
\<close>

theorem oidcCallback_state_mismatch:
  "(oidcClient a = None \<longrightarrow>
      oidcCallback a sess req key env = (Inl NotImplementedException, sess, a)) \<and>
   (oidcClient a = Some client \<and>
    msg_items (parse_response client (args_dict (req_args req))) ''state'' = Some respState \<and>
    (msg_class (parse_response client (args_dict (req_args req))) \<noteq> AuthorizationResponse \<or>
     sess_state sess \<noteq> Some respState) \<longrightarrow>
      oidcCallback a sess req key env = (Inl (NotAuthenticatedException None), sess, a))"
  by (auto simp add: oidcCallback_def getitem_def Let_def)

text \<open>
  Witness for C4: the session stored the state \<^verbatim>\<open>s1\<close> and the callback returns \<^verbatim>\<open>bad\<close>;
  and the same request to a server without an OIDC client.
\<close>

theorem oidcCallback_state_mismatch_witness:
  "oidcClient sample_app = Some sample_client \<and>
   msg_items (parse_response sample_client
     (args_dict (req_args (callback_request [(''code'', ''c1''), (''state'', ''bad'')])))) ''state''
     = Some ''bad'' \<and>
   sess_state login_session \<noteq> Some ''bad'' \<and>
   oidcCallback sample_app login_session
       (callback_request [(''code'', ''c1''), (''state'', ''bad'')]) ''tok2'' sample_env
     = (Inl (NotAuthenticatedException None), login_session, sample_app) \<and>
   oidcCallback (sample_app\<lparr>oidcClient := None\<rparr>) login_session
       (callback_request [(''code'', ''c1''), (''state'', ''bad'')]) ''tok2'' sample_env
     = (Inl NotImplementedException, login_session, sample_app\<lparr>oidcClient := None\<rparr>)"
proof -
  let ?req = "callback_request [(''code'', ''c1''), (''state'', ''bad'')]"
  have h1: "oidcClient sample_app = Some sample_client"
    by (simp add: sample_defs)
  have h2: "msg_items (parse_response sample_client (args_dict (req_args ?req))) ''state''
              = Some ''bad''"
    by (simp add: args_dict_def sample_defs)
  have h3: "sess_state login_session \<noteq> Some ''bad''"
    by (simp add: sample_defs)
  have h4: "oidcClient (sample_app\<lparr>oidcClient := None\<rparr>) = None"
    by simp
  from oidcCallback_state_mismatch
         [of sample_app login_session ?req "''tok2''" sample_env sample_client "''bad''"]
    h1 h2 h3
  have a: "oidcCallback sample_app login_session ?req ''tok2'' sample_env
             = (Inl (NotAuthenticatedException None), login_session, sample_app)"
    by blast
  from oidcCallback_state_mismatch
         [of "sample_app\<lparr>oidcClient := None\<rparr>" login_session ?req "''tok2''" sample_env] h4
  have b: "oidcCallback (sample_app\<lparr>oidcClient := None\<rparr>) login_session ?req ''tok2'' sample_env
             = (Inl NotImplementedException, login_session, sample_app\<lparr>oidcClient := None\<rparr>)"
    by blast
  from h1 h2 h3 a b show ?thesis
    by (intro conjI)
qed

text \<open>
  Counterexample to C4 as stated. A callback whose state differs from the session's, on a
  server without an OIDC client, fails with \<^verbatim>\<open>NotImplementedException\<close>; and on a server
  with one, a callback that is the provider's error response, with no \<^verbatim>\<open>state\<close> member,
  fails with \<^verbatim>\<open>KeyError\<close>, since the state is read before the class is tested.
\<close>

theorem oidcCallback_other_errors_counterexample:
  "sess_state login_session \<noteq> Some ''bad'' \<and>
   outcome (oidcCallback (sample_app\<lparr>oidcClient := None\<rparr>) login_session
       (callback_request [(''code'', ''c1''), (''state'', ''bad'')]) ''tok2'' sample_env)
     = Inl NotImplementedException \<and>
   msg_class (parse_response sample_client
       (args_dict (req_args (callback_request [(''error'', ''access_denied'')]))))
     = ErrorResponse \<and>
   outcome (oidcCallback sample_app login_session
       (callback_request [(''error'', ''access_denied'')]) ''tok2'' sample_env)
     = Inl (KeyError ''state'')"
  by (simp add: callback_defs sample_defs outcome_def)



end
